theory Spec2Isabelle
  imports Main "HOL-Library.Word"
begin

unbundle bit_operations_syntax

section \<open>util/atomic.h: the two atomic wrappers\<close>

text \<open>
  The wrappers of \<^verbatim>\<open>util/atomic.h\<close> forward every call to one member of
  \<^verbatim>\<open>std::atomic<T>\<close> with a fixed memory order. An atomic operation is indivisible,
  so it is one step on the value the cell holds: the model of \<^verbatim>\<open>std::atomic\<close> below
  takes that value and returns the operation's result together with the new value. The
  memory order is an argument of every primitive, as in C++; it constrains how other
  memory accesses may be reordered around the step and has no part in the value computed.

  The source's member \<^verbatim>\<open>v_\<close> is the field \<open>v_atomic\<close> (a name may not end with an
  underscore here). The numeric members are modelled for the integral instances of
  \<^verbatim>\<open>T\<close>: a \<open>'w word\<close>, whose arithmetic wraps around as that of an atomic integer does.
\<close>

datatype memory_order =
  memory_order_relaxed
  | memory_order_acquire
  | memory_order_release
  | memory_order_acq_rel

subsection \<open>The primitives of std::atomic\<close>

definition atomic_store :: "'a \<Rightarrow> 'a \<Rightarrow> memory_order \<Rightarrow> 'a" where
  "atomic_store cur desired order = desired"

definition atomic_load :: "'a \<Rightarrow> memory_order \<Rightarrow> 'a" where
  "atomic_load cur order = cur"

text \<open>
  Compare-and-exchange returns the boolean, the caller's \<^verbatim>\<open>expected\<close> slot after the call
  (it is passed by reference) and the new value of the cell. The weak form may fail although
  the values are equal; whether it does is the environment's choice \<open>spurious\<close>.
\<close>

definition compare_exchange_strong ::
  "'a \<Rightarrow> 'a \<Rightarrow> 'a \<Rightarrow> memory_order \<Rightarrow> bool \<times> 'a \<times> 'a" where
  "compare_exchange_strong cur expected desired order =
     (if cur = expected then (True, expected, desired) else (False, cur, cur))"

definition compare_exchange_weak ::
  "bool \<Rightarrow> 'a \<Rightarrow> 'a \<Rightarrow> 'a \<Rightarrow> memory_order \<Rightarrow> bool \<times> 'a \<times> 'a" where
  "compare_exchange_weak spurious cur expected desired order =
     (if cur = expected \<and> \<not> spurious then (True, expected, desired) else (False, cur, cur))"

definition atomic_exchange :: "'a \<Rightarrow> 'a \<Rightarrow> memory_order \<Rightarrow> 'a \<times> 'a" where
  "atomic_exchange cur desired order = (cur, desired)"

definition fetch_add :: "'w::len word \<Rightarrow> 'w word \<Rightarrow> memory_order \<Rightarrow> 'w word \<times> 'w word" where
  "fetch_add cur operand order = (cur, cur + operand)"

definition fetch_sub :: "'w::len word \<Rightarrow> 'w word \<Rightarrow> memory_order \<Rightarrow> 'w word \<times> 'w word" where
  "fetch_sub cur operand order = (cur, cur - operand)"

definition fetch_and :: "'w::len word \<Rightarrow> 'w word \<Rightarrow> memory_order \<Rightarrow> 'w word \<times> 'w word" where
  "fetch_and cur operand order = (cur, cur AND operand)"

definition fetch_or :: "'w::len word \<Rightarrow> 'w word \<Rightarrow> memory_order \<Rightarrow> 'w word \<times> 'w word" where
  "fetch_or cur operand order = (cur, cur OR operand)"

definition fetch_xor :: "'w::len word \<Rightarrow> 'w word \<Rightarrow> memory_order \<Rightarrow> 'w word \<times> 'w word" where
  "fetch_xor cur operand order = (cur, cur XOR operand)"

subsection \<open>RelaxedAtomic\<close>

record 'a RelaxedAtomic =
  v_atomic :: 'a

definition StoreRelaxed :: "'a RelaxedAtomic \<Rightarrow> 'a \<Rightarrow> 'a RelaxedAtomic" where
  "StoreRelaxed c desired =
     c\<lparr>v_atomic := atomic_store (v_atomic c) desired memory_order_relaxed\<rparr>"

definition LoadRelaxed :: "'a RelaxedAtomic \<Rightarrow> 'a" where
  "LoadRelaxed c = atomic_load (v_atomic c) memory_order_relaxed"

definition CasWeakRelaxed ::
  "bool \<Rightarrow> 'a RelaxedAtomic \<Rightarrow> 'a \<Rightarrow> 'a \<Rightarrow> bool \<times> 'a \<times> 'a RelaxedAtomic" where
  "CasWeakRelaxed spurious c expected desired =
     (case compare_exchange_weak spurious (v_atomic c) expected desired memory_order_relaxed of
        (ok, expected', v') \<Rightarrow> (ok, expected', c\<lparr>v_atomic := v'\<rparr>))"

definition CasStrongRelaxed ::
  "'a RelaxedAtomic \<Rightarrow> 'a \<Rightarrow> 'a \<Rightarrow> bool \<times> 'a \<times> 'a RelaxedAtomic" where
  "CasStrongRelaxed c expected desired =
     (case compare_exchange_strong (v_atomic c) expected desired memory_order_relaxed of
        (ok, expected', v') \<Rightarrow> (ok, expected', c\<lparr>v_atomic := v'\<rparr>))"

definition ExchangeRelaxed :: "'a RelaxedAtomic \<Rightarrow> 'a \<Rightarrow> 'a \<times> 'a RelaxedAtomic" where
  "ExchangeRelaxed c desired =
     (case atomic_exchange (v_atomic c) desired memory_order_relaxed of
        (old, v') \<Rightarrow> (old, c\<lparr>v_atomic := v'\<rparr>))"

definition FetchAddRelaxed ::
  "'w::len word RelaxedAtomic \<Rightarrow> 'w word \<Rightarrow> 'w word \<times> 'w word RelaxedAtomic" where
  "FetchAddRelaxed c operand =
     (case fetch_add (v_atomic c) operand memory_order_relaxed of
        (old, v') \<Rightarrow> (old, c\<lparr>v_atomic := v'\<rparr>))"

definition FetchSubRelaxed ::
  "'w::len word RelaxedAtomic \<Rightarrow> 'w word \<Rightarrow> 'w word \<times> 'w word RelaxedAtomic" where
  "FetchSubRelaxed c operand =
     (case fetch_sub (v_atomic c) operand memory_order_relaxed of
        (old, v') \<Rightarrow> (old, c\<lparr>v_atomic := v'\<rparr>))"

definition FetchAndRelaxed ::
  "'w::len word RelaxedAtomic \<Rightarrow> 'w word \<Rightarrow> 'w word \<times> 'w word RelaxedAtomic" where
  "FetchAndRelaxed c operand =
     (case fetch_and (v_atomic c) operand memory_order_relaxed of
        (old, v') \<Rightarrow> (old, c\<lparr>v_atomic := v'\<rparr>))"

definition FetchOrRelaxed ::
  "'w::len word RelaxedAtomic \<Rightarrow> 'w word \<Rightarrow> 'w word \<times> 'w word RelaxedAtomic" where
  "FetchOrRelaxed c operand =
     (case fetch_or (v_atomic c) operand memory_order_relaxed of
        (old, v') \<Rightarrow> (old, c\<lparr>v_atomic := v'\<rparr>))"

definition FetchXorRelaxed ::
  "'w::len word RelaxedAtomic \<Rightarrow> 'w word \<Rightarrow> 'w word \<times> 'w word RelaxedAtomic" where
  "FetchXorRelaxed c operand =
     (case fetch_xor (v_atomic c) operand memory_order_relaxed of
        (old, v') \<Rightarrow> (old, c\<lparr>v_atomic := v'\<rparr>))"

subsection \<open>AcqRelAtomic\<close>

text \<open>
  \<^verbatim>\<open>AcqRelAtomic<T>\<close> derives from \<^verbatim>\<open>RelaxedAtomic<T>\<close> and adds no member: it is the
  same record, and its operations work on the inherited \<^verbatim>\<open>v_\<close>.
\<close>

type_synonym 'a AcqRelAtomic = "'a RelaxedAtomic"

definition Store :: "'a AcqRelAtomic \<Rightarrow> 'a \<Rightarrow> 'a AcqRelAtomic" where
  "Store c desired =
     c\<lparr>v_atomic := atomic_store (v_atomic c) desired memory_order_release\<rparr>"

definition Load :: "'a AcqRelAtomic \<Rightarrow> 'a" where
  "Load c = atomic_load (v_atomic c) memory_order_acquire"

definition CasWeak ::
  "bool \<Rightarrow> 'a AcqRelAtomic \<Rightarrow> 'a \<Rightarrow> 'a \<Rightarrow> bool \<times> 'a \<times> 'a AcqRelAtomic" where
  "CasWeak spurious c expected desired =
     (case compare_exchange_weak spurious (v_atomic c) expected desired memory_order_acq_rel of
        (ok, expected', v') \<Rightarrow> (ok, expected', c\<lparr>v_atomic := v'\<rparr>))"

definition CasStrong ::
  "'a AcqRelAtomic \<Rightarrow> 'a \<Rightarrow> 'a \<Rightarrow> bool \<times> 'a \<times> 'a AcqRelAtomic" where
  "CasStrong c expected desired =
     (case compare_exchange_strong (v_atomic c) expected desired memory_order_acq_rel of
        (ok, expected', v') \<Rightarrow> (ok, expected', c\<lparr>v_atomic := v'\<rparr>))"

definition Exchange :: "'a AcqRelAtomic \<Rightarrow> 'a \<Rightarrow> 'a \<times> 'a AcqRelAtomic" where
  "Exchange c desired =
     (case atomic_exchange (v_atomic c) desired memory_order_acq_rel of
        (old, v') \<Rightarrow> (old, c\<lparr>v_atomic := v'\<rparr>))"

definition FetchAdd ::
  "'w::len word AcqRelAtomic \<Rightarrow> 'w word \<Rightarrow> 'w word \<times> 'w word AcqRelAtomic" where
  "FetchAdd c operand =
     (case fetch_add (v_atomic c) operand memory_order_acq_rel of
        (old, v') \<Rightarrow> (old, c\<lparr>v_atomic := v'\<rparr>))"

definition FetchSub ::
  "'w::len word AcqRelAtomic \<Rightarrow> 'w word \<Rightarrow> 'w word \<times> 'w word AcqRelAtomic" where
  "FetchSub c operand =
     (case fetch_sub (v_atomic c) operand memory_order_acq_rel of
        (old, v') \<Rightarrow> (old, c\<lparr>v_atomic := v'\<rparr>))"

definition FetchAnd ::
  "'w::len word AcqRelAtomic \<Rightarrow> 'w word \<Rightarrow> 'w word \<times> 'w word AcqRelAtomic" where
  "FetchAnd c operand =
     (case fetch_and (v_atomic c) operand memory_order_acq_rel of
        (old, v') \<Rightarrow> (old, c\<lparr>v_atomic := v'\<rparr>))"

definition FetchOr ::
  "'w::len word AcqRelAtomic \<Rightarrow> 'w word \<Rightarrow> 'w word \<times> 'w word AcqRelAtomic" where
  "FetchOr c operand =
     (case fetch_or (v_atomic c) operand memory_order_acq_rel of
        (old, v') \<Rightarrow> (old, c\<lparr>v_atomic := v'\<rparr>))"

definition FetchXor ::
  "'w::len word AcqRelAtomic \<Rightarrow> 'w word \<Rightarrow> 'w word \<times> 'w word AcqRelAtomic" where
  "FetchXor c operand =
     (case fetch_xor (v_atomic c) operand memory_order_acq_rel of
        (old, v') \<Rightarrow> (old, c\<lparr>v_atomic := v'\<rparr>))"

subsection \<open>Single-threaded runs of a relaxed cell\<close>

text \<open>
  One call on a relaxed cell, with its arguments; a weak compare-and-swap carries the
  environment's choice whether it fails spuriously. What the caller sees of a call is its
  return value, and for a compare-and-swap also the \<^verbatim>\<open>expected\<close> slot after it.
\<close>

datatype 'a atomic_op =
  OpStore 'a
  | OpLoad
  | OpCasWeak bool 'a 'a
  | OpCasStrong 'a 'a
  | OpExchange 'a
  | OpFetchAdd 'a
  | OpFetchSub 'a
  | OpFetchAnd 'a
  | OpFetchOr 'a
  | OpFetchXor 'a

datatype 'a observed =
  Returned_void
  | Returned 'a
  | Returned_cas bool 'a

fun call_relaxed ::
  "'w::len word atomic_op \<Rightarrow> 'w word RelaxedAtomic \<Rightarrow> 'w word observed \<times> 'w word RelaxedAtomic" where
  "call_relaxed (OpStore d) c = (Returned_void, StoreRelaxed c d)"
| "call_relaxed OpLoad c = (Returned (LoadRelaxed c), c)"
| "call_relaxed (OpCasWeak sp e d) c =
     (case CasWeakRelaxed sp c e d of (ok, e', c') \<Rightarrow> (Returned_cas ok e', c'))"
| "call_relaxed (OpCasStrong e d) c =
     (case CasStrongRelaxed c e d of (ok, e', c') \<Rightarrow> (Returned_cas ok e', c'))"
| "call_relaxed (OpExchange d) c =
     (case ExchangeRelaxed c d of (old, c') \<Rightarrow> (Returned old, c'))"
| "call_relaxed (OpFetchAdd k) c =
     (case FetchAddRelaxed c k of (old, c') \<Rightarrow> (Returned old, c'))"
| "call_relaxed (OpFetchSub k) c =
     (case FetchSubRelaxed c k of (old, c') \<Rightarrow> (Returned old, c'))"
| "call_relaxed (OpFetchAnd k) c =
     (case FetchAndRelaxed c k of (old, c') \<Rightarrow> (Returned old, c'))"
| "call_relaxed (OpFetchOr k) c =
     (case FetchOrRelaxed c k of (old, c') \<Rightarrow> (Returned old, c'))"
| "call_relaxed (OpFetchXor k) c =
     (case FetchXorRelaxed c k of (old, c') \<Rightarrow> (Returned old, c'))"

text \<open>
  A run performs the calls in order on one cell and lists, for each call, what it returned
  and the value a \<^verbatim>\<open>LoadRelaxed\<close> right after it reads.
\<close>

fun run_relaxed ::
  "'w::len word atomic_op list \<Rightarrow> 'w word RelaxedAtomic \<Rightarrow> ('w word observed \<times> 'w word) list" where
  "run_relaxed [] c = []"
| "run_relaxed (a # as) c =
     (case call_relaxed a c of (r, c') \<Rightarrow> (r, LoadRelaxed c') # run_relaxed as c')"

text \<open>
  The sequential semantics the specification compares with, following its words: the cell
  is an ordinary variable \<open>x\<close>. A store and an exchange assign the operand, a fetch
  operation assigns the old value combined with the operand and returns the value
  immediately prior to the modification, a load returns \<open>x\<close>. A compare-and-swap assigns
  \<open>desired\<close> and returns true when \<open>x\<close> equals \<open>expected\<close>; otherwise it writes \<open>x\<close> into
  the \<open>expected\<close> slot and returns false. The weak variant may fail although the values are
  equal, and then changes nothing.
\<close>

fun seq_next :: "'w::len word atomic_op \<Rightarrow> 'w word \<Rightarrow> 'w word" where
  "seq_next (OpStore d) x = d"
| "seq_next OpLoad x = x"
| "seq_next (OpCasWeak sp e d) x = (if x = e \<and> \<not> sp then d else x)"
| "seq_next (OpCasStrong e d) x = (if x = e then d else x)"
| "seq_next (OpExchange d) x = d"
| "seq_next (OpFetchAdd k) x = x + k"
| "seq_next (OpFetchSub k) x = x - k"
| "seq_next (OpFetchAnd k) x = x AND k"
| "seq_next (OpFetchOr k) x = x OR k"
| "seq_next (OpFetchXor k) x = x XOR k"

fun seq_result :: "'w::len word atomic_op \<Rightarrow> 'w word \<Rightarrow> 'w word observed" where
  "seq_result (OpStore d) x = Returned_void"
| "seq_result (OpCasWeak sp e d) x = Returned_cas (x = e \<and> \<not> sp) (if x = e \<and> \<not> sp then e else x)"
| "seq_result (OpCasStrong e d) x = Returned_cas (x = e) (if x = e then e else x)"
| "seq_result a x = Returned x"

fun seq_run :: "'w::len word atomic_op list \<Rightarrow> 'w word \<Rightarrow> ('w word observed \<times> 'w word) list" where
  "seq_run [] x = []"
| "seq_run (a # as) x = (seq_result a x, seq_next a x) # seq_run as (seq_next a x)"

section \<open>monitoring/instrumented_mutex.cc: the instrumented lock and wait handle\<close>

subsection \<open>Build switches, constants and the collaborators' data\<close>

text \<open>
  The file is compiled under the preprocessor switches \<^verbatim>\<open>NDEBUG\<close> and
  \<^verbatim>\<open>COERCE_CONTEXT_SWITCH\<close>, and compares with two constants whose declarations are not
  part of these sources: the statistics level \<^verbatim>\<open>kExceptTimeForMutex\<close> and the ticker
  \<^verbatim>\<open>DB_MUTEX_WAIT_MICROS\<close>. All four are parameters of the model, held in one record.
  The model is of the build without \<^verbatim>\<open>NPERF_CONTEXT\<close>, the only one in which
  \<^verbatim>\<open>stats_for_report\<close> exists.
\<close>

record config =
  NDEBUG :: bool
  COERCE_CONTEXT_SWITCH :: bool
  kExceptTimeForMutex :: nat
  DB_MUTEX_WAIT_MICROS :: int

text \<open>
  A statistics sink is read here through \<^verbatim>\<open>get_stats_level()\<close> only; the clock only
  through its address being null or not. A pointer is an \<open>option\<close>, \<open>None\<close> for
  \<^verbatim>\<open>nullptr\<close>.
\<close>

record Statistics =
  stats_level :: nat

definition get_stats_level :: "Statistics \<Rightarrow> nat" where
  "get_stats_level s = stats_level s"

datatype SystemClock = SystemClock

datatype ThreadStatus = STATE_MUTEX_WAIT

text \<open>
  The members the functions read. The source's names end with an underscore
  (\<^verbatim>\<open>stats_code_\<close>, \<^verbatim>\<open>clock_\<close>, \<^verbatim>\<open>stats_\<close>, \<^verbatim>\<open>bg_cv_\<close>); the signal group
  \<^verbatim>\<open>bg_cv_\<close> points to a condition variable, named by a number.
\<close>

record InstrumentedMutex =
  stats_code :: int
  clock :: "SystemClock option"
  stats :: "Statistics option"
  bg_cv :: "nat option"

record InstrumentedCondVar =
  cv_stats_code :: int
  cv_clock :: "SystemClock option"
  cv_stats :: "Statistics option"

subsection \<open>The world the calls act on\<close>

text \<open>
  Every effect of a call is an entry of a trace: the calls into the raw mutex and the raw
  condition variable, the scheduler, the default clock's sleep, the thread-state hook and
  the test-injection point, each with its arguments and in program order.
\<close>

datatype event =
  TEST_StateDelay ThreadStatus
  | SignalAll nat
  | sched_yield
  | SleepForMicroseconds "32 word"
  | TEST_SYNC_POINT string "64 word"
  | mutex_Lock
  | cond_Wait
  | cond_TimedWait "64 word"

datatype perf_metric = db_mutex_lock_nanos | db_condition_wait_nanos

record sample =
  sample_sink :: Statistics
  sample_metric :: perf_metric
  sample_ticker :: int
  sample_nanos :: nat

record world =
  now_nanos :: nat
  trace :: "event list"
  recorded :: "sample list"

text \<open>
  What the calls cannot decide themselves is the environment's: how long each primitive
  takes (a blocking one as long as it blocks), why a timed wait wakes up, which callbacks
  a test has registered at the injection points, and the next two draws of the
  thread's random generator.
\<close>

datatype wakeup = Signalled | SpuriousWakeup | DeadlineReached

record env =
  cost_nanos :: "event \<Rightarrow> nat"
  wakeup_at :: "64 word \<Rightarrow> wakeup"
  sync_callbacks :: "string \<Rightarrow> (64 word \<Rightarrow> 64 word) option"
  draw1 :: nat
  draw2 :: nat

definition perform :: "env \<Rightarrow> event \<Rightarrow> world \<Rightarrow> world" where
  "perform e ev w = w\<lparr>now_nanos := now_nanos w + cost_nanos e ev, trace := trace w @ [ev]\<rparr>"

subsection \<open>Collaborators that are not part of these sources\<close>

text \<open>
  Modelled from the spec: the macro \<^verbatim>\<open>PERF_CONDITIONAL_TIMER_FOR_MUTEX_GUARD\<close> of
  \<^verbatim>\<open>monitoring/perf_context_imp.h\<close>, which is missing. When the condition holds and a
  sink is passed, it starts a latency measurement scoped to the call; on return the
  measurement, if started, is finalised and the elapsed duration is recorded into the sink
  under the given key, in nanoseconds, attributed to the given tag. With no sink or a false
  condition nothing is measured and nothing recorded.
\<close>

record PerfStepTimer =
  timer_start :: nat
  timer_statistics :: Statistics
  timer_metric :: perf_metric
  timer_ticker_type :: int

definition PERF_CONDITIONAL_TIMER_FOR_MUTEX_GUARD ::
  "perf_metric \<Rightarrow> bool \<Rightarrow> Statistics option \<Rightarrow> int \<Rightarrow> world \<Rightarrow> PerfStepTimer option" where
  "PERF_CONDITIONAL_TIMER_FOR_MUTEX_GUARD metric condition st ticker_type w =
     (if condition then
        (case st of
           None \<Rightarrow> None
         | Some s \<Rightarrow>
             Some \<lparr>timer_start = now_nanos w, timer_statistics = s,
                   timer_metric = metric, timer_ticker_type = ticker_type\<rparr>)
      else None)"

definition timer_scope_exit :: "PerfStepTimer option \<Rightarrow> world \<Rightarrow> world" where
  "timer_scope_exit guard w =
     (case guard of
        None \<Rightarrow> w
      | Some t \<Rightarrow>
          w\<lparr>recorded := recorded w @
               [\<lparr>sample_sink = timer_statistics t, sample_metric = timer_metric t,
                 sample_ticker = timer_ticker_type t,
                 sample_nanos = now_nanos w - timer_start t\<rparr>]\<rparr>)"

text \<open>
  Modelled from the spec: the macro \<^verbatim>\<open>TEST_SYNC_POINT_CALLBACK\<close> of
  \<^verbatim>\<open>test_util/sync_point.h\<close>, which is missing. The code exposes a named point and a
  pointer to a payload; a callback registered for the name may observe or rewrite the
  payload before the guarded operation proceeds; with no callback registered the point is a
  no-op. The result is the payload afterwards.
\<close>

definition TEST_SYNC_POINT_CALLBACK ::
  "env \<Rightarrow> string \<Rightarrow> 64 word \<Rightarrow> world \<Rightarrow> 64 word \<times> world" where
  "TEST_SYNC_POINT_CALLBACK e name payload w =
     ((case sync_callbacks e name of None \<Rightarrow> payload | Some cb \<Rightarrow> cb payload),
      perform e (TEST_SYNC_POINT name payload) w)"

text \<open>
  Modelled from the spec: the raw condition variable \<^verbatim>\<open>cond_\<close> (\<^verbatim>\<open>port::CondVar\<close>),
  which is missing. Its timed wait blocks until it is signalled or the absolute deadline
  elapses and returns whether the deadline was reached (true) or a signal or a spurious
  wakeup occurred (false).
\<close>

definition port_TimedWait :: "env \<Rightarrow> 64 word \<Rightarrow> world \<Rightarrow> bool \<times> world" where
  "port_TimedWait e abs_time_us w =
     (wakeup_at e abs_time_us = DeadlineReached, perform e (cond_TimedWait abs_time_us) w)"

text \<open>
  Modelled from the spec: the generator \<^verbatim>\<open>Random\<close> of \<^verbatim>\<open>util/random.h\<close>, which is
  missing. \<^verbatim>\<open>Uniform(n)\<close> is the generator's next draw brought into the range from 0 to
  \<open>n - 1\<close>, each value equally likely; \<^verbatim>\<open>OneIn(n)\<close> holds for one value in \<open>n\<close>.
\<close>

definition Uniform :: "nat \<Rightarrow> nat \<Rightarrow> nat" where
  "Uniform n draw = draw mod n"

definition OneIn :: "nat \<Rightarrow> nat \<Rightarrow> bool" where
  "OneIn n draw = (Uniform n draw = 0)"

subsection \<open>stats_for_report\<close>

text \<open>
  The conjunction is evaluated from the left, so the level of the sink is read only when
  the sink is not null.
\<close>

definition stats_for_report ::
  "config \<Rightarrow> SystemClock option \<Rightarrow> Statistics option \<Rightarrow> Statistics option" where
  "stats_for_report cfg clk st =
     (if clk \<noteq> None \<and> st \<noteq> None \<and> kExceptTimeForMutex cfg < get_stats_level (the st)
      then st else None)"

subsection \<open>InstrumentedMutex\<close>

definition signal_bg_cv :: "env \<Rightarrow> InstrumentedMutex \<Rightarrow> world \<Rightarrow> world" where
  "signal_bg_cv e m w = (case bg_cv m of None \<Rightarrow> w | Some cv \<Rightarrow> perform e (SignalAll cv) w)"

definition state_delay :: "config \<Rightarrow> env \<Rightarrow> world \<Rightarrow> world" where
  "state_delay cfg e w =
     (if NDEBUG cfg then w else perform e (TEST_StateDelay STATE_MUTEX_WAIT) w)"

definition LockInternal :: "config \<Rightarrow> env \<Rightarrow> InstrumentedMutex \<Rightarrow> world \<Rightarrow> world" where
  "LockInternal cfg e m w =
     (let w1 = state_delay cfg e w;
          w2 =
            (if COERCE_CONTEXT_SWITCH cfg \<and> stats_code m = DB_MUTEX_WAIT_MICROS cfg then
               (if OneIn 2 (draw1 e) then perform e sched_yield (signal_bg_cv e m w1)
                else
                  (let sleep_us = (word_of_nat (Uniform 11 (draw2 e)) :: 32 word) * 1000
                   in perform e (SleepForMicroseconds sleep_us) (signal_bg_cv e m w1)))
             else w1)
      in perform e mutex_Lock w2)"

definition Lock_guard :: "config \<Rightarrow> InstrumentedMutex \<Rightarrow> world \<Rightarrow> PerfStepTimer option" where
  "Lock_guard cfg m w =
     PERF_CONDITIONAL_TIMER_FOR_MUTEX_GUARD db_mutex_lock_nanos
       (stats_code m = DB_MUTEX_WAIT_MICROS cfg)
       (stats_for_report cfg (clock m) (stats m)) (stats_code m) w"

definition Lock :: "config \<Rightarrow> env \<Rightarrow> InstrumentedMutex \<Rightarrow> world \<Rightarrow> world" where
  "Lock cfg e m w = timer_scope_exit (Lock_guard cfg m w) (LockInternal cfg e m w)"

subsection \<open>InstrumentedCondVar\<close>

definition WaitInternal :: "config \<Rightarrow> env \<Rightarrow> world \<Rightarrow> world" where
  "WaitInternal cfg e w = perform e cond_Wait (state_delay cfg e w)"

definition Wait_guard :: "config \<Rightarrow> InstrumentedCondVar \<Rightarrow> world \<Rightarrow> PerfStepTimer option" where
  "Wait_guard cfg cv w =
     PERF_CONDITIONAL_TIMER_FOR_MUTEX_GUARD db_condition_wait_nanos
       (cv_stats_code cv = DB_MUTEX_WAIT_MICROS cfg)
       (stats_for_report cfg (cv_clock cv) (cv_stats cv)) (cv_stats_code cv) w"

definition Wait :: "config \<Rightarrow> env \<Rightarrow> InstrumentedCondVar \<Rightarrow> world \<Rightarrow> world" where
  "Wait cfg e cv w = timer_scope_exit (Wait_guard cfg cv w) (WaitInternal cfg e w)"

definition TimedWaitInternal :: "config \<Rightarrow> env \<Rightarrow> 64 word \<Rightarrow> world \<Rightarrow> bool \<times> world" where
  "TimedWaitInternal cfg e abs_time_us w =
     (case TEST_SYNC_POINT_CALLBACK e ''InstrumentedCondVar::TimedWaitInternal'' abs_time_us
             (state_delay cfg e w) of
        (abs_time_us', w') \<Rightarrow> port_TimedWait e abs_time_us' w')"

definition TimedWait ::
  "config \<Rightarrow> env \<Rightarrow> InstrumentedCondVar \<Rightarrow> 64 word \<Rightarrow> world \<Rightarrow> bool \<times> world" where
  "TimedWait cfg e cv abs_time_us w =
     (case TimedWaitInternal cfg e abs_time_us w of
        (r, w') \<Rightarrow> (r, timer_scope_exit (Wait_guard cfg cv w) w'))"

subsection \<open>What a call adds to the sink\<close>

text \<open>The samples recorded between the world \<open>w\<close> before a call and the world \<open>w'\<close> after it.\<close>

definition new_samples :: "world \<Rightarrow> world \<Rightarrow> sample list" where
  "new_samples w w' = drop (length (recorded w)) (recorded w')"

subsection \<open>Concrete inputs\<close>

text \<open>
  A debug build with the context-switch coercion compiled in; the two constants have
  example values. The environment charges a sleep its full duration, registers one callback
  that moves the deadline of the timed wait forward by 500 microseconds, and lets a
  timed wait run into any deadline before 2000.
\<close>

definition example_config :: config where
  "example_config =
     \<lparr>NDEBUG = False, COERCE_CONTEXT_SWITCH = True, kExceptTimeForMutex = 4,
      DB_MUTEX_WAIT_MICROS = 39\<rparr>"

definition example_env :: env where
  "example_env =
     \<lparr>cost_nanos =
        (\<lambda>ev. case ev of
                SleepForMicroseconds us \<Rightarrow> 1000 * unat us
              | mutex_Lock \<Rightarrow> 700
              | cond_Wait \<Rightarrow> 900
              | cond_TimedWait t \<Rightarrow> 400
              | _ \<Rightarrow> 10),
      wakeup_at = (\<lambda>t. if t < 2000 then DeadlineReached else Signalled),
      sync_callbacks =
        (\<lambda>name. if name = ''InstrumentedCondVar::TimedWaitInternal''
                 then Some (\<lambda>t. t + 500) else None),
      draw1 = 301,
      draw2 = 25\<rparr>"

definition example_world :: world where
  "example_world = \<lparr>now_nanos = 1000, trace = [], recorded = []\<rparr>"

definition example_mutex :: InstrumentedMutex where
  "example_mutex =
     \<lparr>stats_code = 39, clock = Some SystemClock, stats = Some \<lparr>stats_level = 5\<rparr>,
      bg_cv = Some 7\<rparr>"

definition mutex_without_clock :: InstrumentedMutex where
  "mutex_without_clock =
     \<lparr>stats_code = 39, clock = None, stats = Some \<lparr>stats_level = 5\<rparr>, bg_cv = None\<rparr>"

definition example_cond_var :: InstrumentedCondVar where
  "example_cond_var =
     \<lparr>cv_stats_code = 39, cv_clock = Some SystemClock, cv_stats = Some \<lparr>stats_level = 5\<rparr>\<rparr>"

lemmas example_defs =
  example_config_def example_env_def example_world_def example_mutex_def
  mutex_without_clock_def example_cond_var_def

section \<open>Properties of the atomic wrappers\<close>

lemmas wrapper_defs =
  StoreRelaxed_def LoadRelaxed_def CasWeakRelaxed_def CasStrongRelaxed_def ExchangeRelaxed_def
  FetchAddRelaxed_def FetchSubRelaxed_def FetchAndRelaxed_def FetchOrRelaxed_def
  FetchXorRelaxed_def Store_def Load_def CasWeak_def CasStrong_def

lemmas std_atomic_defs =
  atomic_store_def atomic_load_def compare_exchange_weak_def compare_exchange_strong_def
  atomic_exchange_def fetch_add_def fetch_sub_def fetch_and_def fetch_or_def fetch_xor_def

text \<open>
  Claim C3. On a cell that holds \<open>x\<close>, relaxed or acquire-release, a strong
  compare-and-swap with expected value \<open>x\<close> and desired value \<open>y\<close> returns true and
  leaves the cell holding \<open>y\<close>: it succeeds whenever the current value equals the expected
  one and never fails spuriously.
\<close>

theorem CasStrong_succeeds:
  assumes "v_atomic c = x"
  shows "CasStrongRelaxed c x y = (True, x, c\<lparr>v_atomic := y\<rparr>)
         \<and> CasStrong c x y = (True, x, c\<lparr>v_atomic := y\<rparr>)
         \<and> LoadRelaxed (c\<lparr>v_atomic := y\<rparr>) = y \<and> Load (c\<lparr>v_atomic := y\<rparr>) = y"
  using assms by (simp add: wrapper_defs std_atomic_defs)

theorem CasStrong_succeeds_witness:
  "v_atomic \<lparr>v_atomic = 5 :: 8 word\<rparr> = 5
   \<and> CasStrongRelaxed \<lparr>v_atomic = 5 :: 8 word\<rparr> 5 9 = (True, 5, \<lparr>v_atomic = 9\<rparr>)
   \<and> CasStrong \<lparr>v_atomic = 5 :: 8 word\<rparr> 5 9 = (True, 5, \<lparr>v_atomic = 9\<rparr>)"
proof -
  have h: "v_atomic \<lparr>v_atomic = 5 :: 8 word\<rparr> = 5" by simp
  show ?thesis using h CasStrong_succeeds [OF h, of 9] by simp
qed

text \<open>
  Claim C4. Whenever a compare-and-swap returns false, weak or strong, on a relaxed or an
  acquire-release cell, the caller's expected slot holds the cell's current value
  afterwards and the cell keeps the value it had; this covers the failed comparison and
  the spurious failure of the weak variant alike.
\<close>

theorem cas_failure_writes_back:
  "(\<not> fst (CasWeakRelaxed sp c e d) \<longrightarrow>
      fst (snd (CasWeakRelaxed sp c e d)) = v_atomic c \<and> snd (snd (CasWeakRelaxed sp c e d)) = c)
   \<and> (\<not> fst (CasStrongRelaxed c e d) \<longrightarrow>
      fst (snd (CasStrongRelaxed c e d)) = v_atomic c \<and> snd (snd (CasStrongRelaxed c e d)) = c)
   \<and> (\<not> fst (CasWeak sp c e d) \<longrightarrow>
      fst (snd (CasWeak sp c e d)) = v_atomic c \<and> snd (snd (CasWeak sp c e d)) = c)
   \<and> (\<not> fst (CasStrong c e d) \<longrightarrow>
      fst (snd (CasStrong c e d)) = v_atomic c \<and> snd (snd (CasStrong c e d)) = c)"
  by (simp add: wrapper_defs std_atomic_defs)

theorem cas_failure_writes_back_witness:
  "CasWeakRelaxed True \<lparr>v_atomic = 7 :: 8 word\<rparr> 7 9 = (False, 7, \<lparr>v_atomic = 7\<rparr>)
   \<and> CasWeak True \<lparr>v_atomic = 7 :: 8 word\<rparr> 7 9 = (False, 7, \<lparr>v_atomic = 7\<rparr>)
   \<and> CasWeakRelaxed False \<lparr>v_atomic = 7 :: 8 word\<rparr> 3 9 = (False, 7, \<lparr>v_atomic = 7\<rparr>)
   \<and> CasStrongRelaxed \<lparr>v_atomic = 7 :: 8 word\<rparr> 3 9 = (False, 7, \<lparr>v_atomic = 7\<rparr>)
   \<and> CasWeak False \<lparr>v_atomic = 7 :: 8 word\<rparr> 3 9 = (False, 7, \<lparr>v_atomic = 7\<rparr>)
   \<and> CasStrong \<lparr>v_atomic = 7 :: 8 word\<rparr> 3 9 = (False, 7, \<lparr>v_atomic = 7\<rparr>)"
proof -
  let ?c = "\<lparr>v_atomic = 7 :: 8 word\<rparr>"
  have spurious: "\<not> fst (CasWeakRelaxed True ?c 7 9)" "\<not> fst (CasWeak True ?c 7 9)"
    by (simp_all add: wrapper_defs std_atomic_defs)
  have differs: "\<not> fst (CasWeakRelaxed False ?c 3 9)" "\<not> fst (CasStrongRelaxed ?c 3 9)"
    "\<not> fst (CasWeak False ?c 3 9)" "\<not> fst (CasStrong ?c 3 9)"
    by (simp_all add: wrapper_defs std_atomic_defs)
  show ?thesis
    using spurious differs
      cas_failure_writes_back [of True ?c 7 9] cas_failure_writes_back [of False ?c 3 9]
    by (simp add: prod_eq_iff)
qed

lemma call_relaxed_seq:
  "call_relaxed a c = (seq_result a (v_atomic c), c\<lparr>v_atomic := seq_next a (v_atomic c)\<rparr>)"
  by (cases a) (simp_all add: wrapper_defs std_atomic_defs)

text \<open>
  Claim C8. A single-threaded run of any sequence of operations on a relaxed cell (store,
  load, exchange, the five fetch operations, both compare-and-swap variants) shows after
  each operation the result and the cell value that the sequential semantics of an
  ordinary variable predicts; each fetch operation returns the value the cell held
  immediately before the modification it makes.
\<close>

theorem relaxed_run_is_sequential:
  "run_relaxed ops c = seq_run ops (LoadRelaxed c)
   \<and> fst (FetchAddRelaxed c k) = LoadRelaxed c
   \<and> LoadRelaxed (snd (FetchAddRelaxed c k)) = LoadRelaxed c + k
   \<and> fst (FetchSubRelaxed c k) = LoadRelaxed c
   \<and> LoadRelaxed (snd (FetchSubRelaxed c k)) = LoadRelaxed c - k
   \<and> fst (FetchAndRelaxed c k) = LoadRelaxed c
   \<and> LoadRelaxed (snd (FetchAndRelaxed c k)) = LoadRelaxed c AND k
   \<and> fst (FetchOrRelaxed c k) = LoadRelaxed c
   \<and> LoadRelaxed (snd (FetchOrRelaxed c k)) = LoadRelaxed c OR k
   \<and> fst (FetchXorRelaxed c k) = LoadRelaxed c
   \<and> LoadRelaxed (snd (FetchXorRelaxed c k)) = LoadRelaxed c XOR k"
proof -
  have "run_relaxed ops c = seq_run ops (v_atomic c)"
  proof (induction ops arbitrary: c)
    case Nil
    show ?case by simp
  next
    case (Cons a ops)
    show ?case
      by (simp add: call_relaxed_seq Cons.IH LoadRelaxed_def atomic_load_def)
  qed
  then show ?thesis
    by (simp add: wrapper_defs std_atomic_defs)
qed

theorem relaxed_run_is_sequential_witness:
  "run_relaxed
     [OpFetchAdd 250, OpCasWeak True 4 9, OpCasWeak False 4 9, OpCasStrong 3 1,
      OpExchange 6, OpFetchXor 255, OpStore 2, OpLoad]
     \<lparr>v_atomic = 10 :: 8 word\<rparr> =
   [(Returned 10, 4), (Returned_cas False 4, 4), (Returned_cas True 4, 9),
    (Returned_cas False 9, 9), (Returned 9, 6), (Returned 6, 249), (Returned_void, 2),
    (Returned 2, 2)]"
  using relaxed_run_is_sequential
    [of "[OpFetchAdd 250, OpCasWeak True 4 9, OpCasWeak False 4 9, OpCasStrong 3 1,
          OpExchange 6, OpFetchXor 255, OpStore 2, OpLoad]" "\<lparr>v_atomic = 10 :: 8 word\<rparr>"]
  by (simp add: LoadRelaxed_def atomic_load_def)

section \<open>Properties of the instrumented lock and wait handle\<close>

subsection \<open>What each step leaves unchanged\<close>

lemma perform_simps:
  "trace (perform e ev w) = trace w @ [ev]"
  "recorded (perform e ev w) = recorded w"
  "now_nanos (perform e ev w) = now_nanos w + cost_nanos e ev"
  by (simp_all add: perform_def)

lemma state_delay_simps:
  "trace (state_delay cfg e w) =
     trace w @ (if NDEBUG cfg then [] else [TEST_StateDelay STATE_MUTEX_WAIT])"
  "recorded (state_delay cfg e w) = recorded w"
  by (simp_all add: state_delay_def perform_simps)

lemma signal_bg_cv_simps:
  "trace (signal_bg_cv e m w) =
     trace w @ (case bg_cv m of None \<Rightarrow> [] | Some cv \<Rightarrow> [SignalAll cv])"
  "recorded (signal_bg_cv e m w) = recorded w"
  by (simp_all add: signal_bg_cv_def perform_simps split: option.split)

lemma timer_scope_exit_simps:
  "trace (timer_scope_exit g w) = trace w"
  "now_nanos (timer_scope_exit g w) = now_nanos w"
  "recorded (timer_scope_exit g w) =
     recorded w @
     (case g of
        None \<Rightarrow> []
      | Some t \<Rightarrow>
          [\<lparr>sample_sink = timer_statistics t, sample_metric = timer_metric t,
            sample_ticker = timer_ticker_type t,
            sample_nanos = now_nanos w - timer_start t\<rparr>])"
  by (simp_all add: timer_scope_exit_def split: option.split)

lemma timer_scope_exit_forget:
  "(timer_scope_exit g w)\<lparr>recorded := r\<rparr> = w\<lparr>recorded := r\<rparr>"
  by (simp add: timer_scope_exit_def split: option.split)

lemma LockInternal_recorded: "recorded (LockInternal cfg e m w) = recorded w"
  by (simp add: LockInternal_def Let_def perform_simps state_delay_simps signal_bg_cv_simps)

lemma WaitInternal_recorded: "recorded (WaitInternal cfg e w) = recorded w"
  by (simp add: WaitInternal_def perform_simps state_delay_simps)

lemma TimedWaitInternal_recorded: "recorded (snd (TimedWaitInternal cfg e t w)) = recorded w"
  by (simp add: TimedWaitInternal_def TEST_SYNC_POINT_CALLBACK_def port_TimedWait_def
      perform_simps state_delay_simps)

lemma TimedWait_unfold:
  "TimedWait cfg e cv t w =
     (fst (TimedWaitInternal cfg e t w),
      timer_scope_exit (Wait_guard cfg cv w) (snd (TimedWaitInternal cfg e t w)))"
  by (simp add: TimedWait_def split: prod.split)

subsection \<open>The trace of the internal calls\<close>

lemma LockInternal_trace:
  "trace (LockInternal cfg e m w) =
     trace w
     @ (if NDEBUG cfg then [] else [TEST_StateDelay STATE_MUTEX_WAIT])
     @ (if COERCE_CONTEXT_SWITCH cfg \<and> stats_code m = DB_MUTEX_WAIT_MICROS cfg then
          (case bg_cv m of None \<Rightarrow> [] | Some cv \<Rightarrow> [SignalAll cv])
          @ (if OneIn 2 (draw1 e) then [sched_yield]
             else [SleepForMicroseconds (word_of_nat (Uniform 11 (draw2 e)) * 1000)])
        else [])
     @ [mutex_Lock]"
  by (simp add: LockInternal_def Let_def perform_simps state_delay_simps signal_bg_cv_simps)

lemma TimedWaitInternal_trace:
  "trace (snd (TimedWaitInternal cfg e t w)) =
     trace w
     @ (if NDEBUG cfg then [] else [TEST_StateDelay STATE_MUTEX_WAIT])
     @ [TEST_SYNC_POINT ''InstrumentedCondVar::TimedWaitInternal'' t,
        cond_TimedWait
          (case sync_callbacks e ''InstrumentedCondVar::TimedWaitInternal'' of
             None \<Rightarrow> t | Some cb \<Rightarrow> cb t)]"
  by (simp add: TimedWaitInternal_def TEST_SYNC_POINT_CALLBACK_def port_TimedWait_def
      perform_simps state_delay_simps)

lemma LockInternal_config:
  "LockInternal cfg e (m\<lparr>clock := c, stats := s\<rparr>) w = LockInternal cfg e m w"
proof -
  have "signal_bg_cv e (m\<lparr>clock := c, stats := s\<rparr>) = signal_bg_cv e m"
    by (rule ext) (simp add: signal_bg_cv_def)
  then show ?thesis by (simp add: LockInternal_def Let_def)
qed

lemma sleep_us_unat:
  "unat ((word_of_nat (Uniform 11 d) :: 32 word) * 1000) = 1000 * Uniform 11 d"
proof -
  have k: "Uniform 11 d < 11" by (simp add: Uniform_def)
  then have "unat (word_of_nat (Uniform 11 d) :: 32 word) = Uniform 11 d"
    by (simp add: unat_of_nat)
  moreover have "unat (1000 :: 32 word) = 1000" by simp
  moreover from k have "Uniform 11 d * 1000 < 2 ^ 32" by simp
  ultimately show ?thesis
    by (simp add: unat_word_ariths)
qed

subsection \<open>When the guard starts a measurement\<close>

lemma guard_cases:
  "PERF_CONDITIONAL_TIMER_FOR_MUTEX_GUARD metric (code = DB_MUTEX_WAIT_MICROS cfg)
     (stats_for_report cfg clk st) code w =
   (case st of
      None \<Rightarrow> None
    | Some s \<Rightarrow>
        if code = DB_MUTEX_WAIT_MICROS cfg \<and> clk \<noteq> None
           \<and> kExceptTimeForMutex cfg < get_stats_level s
        then Some \<lparr>timer_start = now_nanos w, timer_statistics = s, timer_metric = metric,
                   timer_ticker_type = code\<rparr>
        else None)"
  by (simp add: PERF_CONDITIONAL_TIMER_FOR_MUTEX_GUARD_def stats_for_report_def
      split: option.split)

subsection \<open>The claims\<close>

text \<open>
  Claim C1, as amended. A call to \<^verbatim>\<open>Lock()\<close> keeps the samples recorded before it and
  adds exactly one when the lock's tag is \<^verbatim>\<open>DB_MUTEX_WAIT_MICROS\<close>, the clock is not
  null, a statistics sink is attached and its level is above \<^verbatim>\<open>kExceptTimeForMutex\<close>;
  in every other case, so whenever the sink is absent or its level is at or below the
  threshold, it adds none.
\<close>

theorem Lock_sample_count:
  "take (length (recorded w)) (recorded (Lock cfg e m w)) = recorded w
   \<and> length (new_samples w (Lock cfg e m w)) =
       (if stats_code m = DB_MUTEX_WAIT_MICROS cfg \<and> clock m \<noteq> None
           \<and> (case stats m of
                 None \<Rightarrow> False
               | Some s \<Rightarrow> kExceptTimeForMutex cfg < get_stats_level s)
        then 1 else 0)"
  by (simp add: Lock_def new_samples_def timer_scope_exit_simps LockInternal_recorded
      Lock_guard_def guard_cases split: option.split)

theorem Lock_sample_count_witness:
  "length (new_samples example_world
             (Lock example_config example_env example_mutex example_world)) = 1
   \<and> length (new_samples example_world
               (Lock example_config example_env (example_mutex\<lparr>stats := None\<rparr>)
                  example_world)) = 0
   \<and> length (new_samples example_world
               (Lock example_config example_env
                  (example_mutex\<lparr>stats := Some \<lparr>stats_level = 4\<rparr>\<rparr>) example_world)) = 0"
  using Lock_sample_count [of example_world example_config example_env example_mutex]
    Lock_sample_count [of example_world example_config example_env
      "example_mutex\<lparr>stats := None\<rparr>"]
    Lock_sample_count [of example_world example_config example_env
      "example_mutex\<lparr>stats := Some \<lparr>stats_level = 4\<rparr>\<rparr>"]
  by (simp add: example_defs get_stats_level_def)

text \<open>
  The claim as it was stated fails. Both locks below have a sink attached whose level, 5,
  is above the threshold, 4. The first carries the instrumented tag but its clock is null;
  the second has a clock but carries another tag. A call to \<^verbatim>\<open>Lock()\<close> on either
  records no sample.
\<close>

theorem Lock_sample_count_counterexample:
  "stats mutex_without_clock = Some \<lparr>stats_level = 5\<rparr>
   \<and> stats (example_mutex\<lparr>stats_code := 40\<rparr>) = Some \<lparr>stats_level = 5\<rparr>
   \<and> kExceptTimeForMutex example_config < get_stats_level \<lparr>stats_level = 5\<rparr>
   \<and> new_samples example_world
       (Lock example_config example_env mutex_without_clock example_world) = []
   \<and> new_samples example_world
       (Lock example_config example_env (example_mutex\<lparr>stats_code := 40\<rparr>)
          example_world) = []"
  by (simp add: example_defs get_stats_level_def new_samples_def Lock_def Lock_guard_def
      stats_for_report_def PERF_CONDITIONAL_TIMER_FOR_MUTEX_GUARD_def timer_scope_exit_def
      LockInternal_recorded)

text \<open>
  Claim C2. \<^verbatim>\<open>Lock()\<close> starts a latency measurement if and only if the lock's tag is
  \<^verbatim>\<open>DB_MUTEX_WAIT_MICROS\<close>, the sink is not null, the clock is not null and the sink's
  level exceeds \<^verbatim>\<open>kExceptTimeForMutex\<close>; exactly then the call records, on return, the
  time elapsed since its start into that sink, under the lock's tag.
\<close>

theorem Lock_measures_iff:
  "(Lock_guard cfg m w \<noteq> None) =
     (stats_code m = DB_MUTEX_WAIT_MICROS cfg \<and> stats m \<noteq> None \<and> clock m \<noteq> None
      \<and> (case stats m of
            None \<Rightarrow> False
          | Some s \<Rightarrow> kExceptTimeForMutex cfg < get_stats_level s))
   \<and> recorded (Lock cfg e m w) =
       recorded w @
       (case stats m of
          None \<Rightarrow> []
        | Some s \<Rightarrow>
            if stats_code m = DB_MUTEX_WAIT_MICROS cfg \<and> clock m \<noteq> None
               \<and> kExceptTimeForMutex cfg < get_stats_level s
            then [\<lparr>sample_sink = s, sample_metric = db_mutex_lock_nanos,
                   sample_ticker = stats_code m,
                   sample_nanos = now_nanos (Lock cfg e m w) - now_nanos w\<rparr>]
            else [])"
proof (cases "stats m")
  case None
  then show ?thesis
    by (simp add: Lock_def timer_scope_exit_simps LockInternal_recorded Lock_guard_def
        guard_cases)
next
  case (Some s)
  then show ?thesis
    by (simp add: Lock_def timer_scope_exit_simps LockInternal_recorded Lock_guard_def
        guard_cases)
qed

theorem Lock_measures_iff_witness:
  "Lock_guard example_config example_mutex example_world \<noteq> None
   \<and> recorded (Lock example_config example_env example_mutex example_world) =
       [\<lparr>sample_sink = \<lparr>stats_level = 5\<rparr>, sample_metric = db_mutex_lock_nanos,
         sample_ticker = 39, sample_nanos = 3000720\<rparr>]
   \<and> Lock_guard example_config (example_mutex\<lparr>stats_code := 40\<rparr>) example_world = None
   \<and> recorded (Lock example_config example_env (example_mutex\<lparr>stats_code := 40\<rparr>)
                 example_world) = []"
proof -
  have "now_nanos (Lock example_config example_env example_mutex example_world) = 3001720"
    by (simp add: example_defs Lock_def timer_scope_exit_simps LockInternal_def Let_def
        state_delay_def signal_bg_cv_def perform_def OneIn_def Uniform_def)
  then show ?thesis
    using Lock_measures_iff [of example_config example_mutex example_world example_env]
      Lock_measures_iff [of example_config "example_mutex\<lparr>stats_code := 40\<rparr>"
        example_world example_env]
    by (simp add: example_defs get_stats_level_def)
qed

text \<open>
  Claim C5. In a build with \<^verbatim>\<open>COERCE_CONTEXT_SWITCH\<close>, and in no other, a call to
  \<^verbatim>\<open>Lock()\<close> on a lock tagged \<^verbatim>\<open>DB_MUTEX_WAIT_MICROS\<close> perturbs the schedule before
  it acquires the raw lock: it signals all waiters of the lock's signal group, if it has
  one, and then either yields the processor once, when the fair draw \<^verbatim>\<open>OneIn(2)\<close> holds
  (one draw in two), or sleeps for \<^verbatim>\<open>Uniform(11)\<close> milliseconds, a whole number from 0
  to 10. A lock with another tag, or any lock in a build without the switch, goes straight
  to the raw lock.
\<close>

theorem Lock_chaos_perturbation:
  "trace (Lock cfg e m w) =
     trace w
     @ (if NDEBUG cfg then [] else [TEST_StateDelay STATE_MUTEX_WAIT])
     @ (if COERCE_CONTEXT_SWITCH cfg \<and> stats_code m = DB_MUTEX_WAIT_MICROS cfg then
          (case bg_cv m of None \<Rightarrow> [] | Some cv \<Rightarrow> [SignalAll cv])
          @ (if OneIn 2 (draw1 e) then [sched_yield]
             else [SleepForMicroseconds (word_of_nat (Uniform 11 (draw2 e)) * 1000)])
        else [])
     @ [mutex_Lock]
   \<and> OneIn 2 (draw1 e) = even (draw1 e)
   \<and> unat ((word_of_nat (Uniform 11 (draw2 e)) :: 32 word) * 1000)
       = 1000 * Uniform 11 (draw2 e)
   \<and> Uniform 11 (draw2 e) \<le> 10"
proof -
  have "Uniform 11 (draw2 e) < 11" by (simp add: Uniform_def)
  then have "Uniform 11 (draw2 e) \<le> 10" by simp
  moreover have "OneIn 2 (draw1 e) = even (draw1 e)"
    by (simp add: OneIn_def Uniform_def even_iff_mod_2_eq_zero)
  ultimately show ?thesis
    by (simp only: Lock_def timer_scope_exit_simps LockInternal_trace sleep_us_unat simp_thms)
qed

theorem Lock_chaos_perturbation_witness:
  "trace (Lock example_config example_env example_mutex example_world) =
     [TEST_StateDelay STATE_MUTEX_WAIT, SignalAll 7, SleepForMicroseconds 3000, mutex_Lock]
   \<and> trace (Lock example_config (example_env\<lparr>draw1 := 302\<rparr>) example_mutex example_world) =
     [TEST_StateDelay STATE_MUTEX_WAIT, SignalAll 7, sched_yield, mutex_Lock]
   \<and> trace (Lock (example_config\<lparr>COERCE_CONTEXT_SWITCH := False\<rparr>) example_env
              example_mutex example_world) =
     [TEST_StateDelay STATE_MUTEX_WAIT, mutex_Lock]
   \<and> trace (Lock example_config example_env (example_mutex\<lparr>stats_code := 40\<rparr>)
              example_world) =
     [TEST_StateDelay STATE_MUTEX_WAIT, mutex_Lock]"
  using Lock_chaos_perturbation [of example_config example_env example_mutex example_world]
    Lock_chaos_perturbation [of example_config "example_env\<lparr>draw1 := 302\<rparr>" example_mutex
      example_world]
    Lock_chaos_perturbation [of "example_config\<lparr>COERCE_CONTEXT_SWITCH := False\<rparr>"
      example_env example_mutex example_world]
    Lock_chaos_perturbation [of example_config example_env
      "example_mutex\<lparr>stats_code := 40\<rparr>" example_world]
  by (simp add: example_defs OneIn_def Uniform_def)

text \<open>
  Claim C6. The boolean that \<^verbatim>\<open>TimedWait\<close> returns is the result of the raw condition
  variable's timed wait, unchanged: true exactly when the wait ran into its absolute
  deadline, false when a signal or a spurious wakeup ended it first. The deadline in force
  is the one the timed wait was given, after the injection point. The outcome is a plain
  boolean; the call has no error result.
\<close>

theorem TimedWait_result:
  "fst (TimedWait cfg e cv t w) =
     fst (port_TimedWait e
            (fst (TEST_SYNC_POINT_CALLBACK e ''InstrumentedCondVar::TimedWaitInternal'' t
                    (state_delay cfg e w)))
            (snd (TEST_SYNC_POINT_CALLBACK e ''InstrumentedCondVar::TimedWaitInternal'' t
                    (state_delay cfg e w))))
   \<and> fst (TimedWait cfg e cv t w) =
       (case wakeup_at e
               (case sync_callbacks e ''InstrumentedCondVar::TimedWaitInternal'' of
                  None \<Rightarrow> t | Some cb \<Rightarrow> cb t) of
          DeadlineReached \<Rightarrow> True
        | Signalled \<Rightarrow> False
        | SpuriousWakeup \<Rightarrow> False)"
  by (simp add: TimedWait_unfold TimedWaitInternal_def TEST_SYNC_POINT_CALLBACK_def
      port_TimedWait_def split: wakeup.split)

theorem TimedWait_result_witness:
  "fst (TimedWait example_config example_env example_cond_var 1000 example_world) = True
   \<and> fst (TimedWait example_config example_env example_cond_var 1500 example_world) = False
   \<and> fst (TimedWait example_config (example_env\<lparr>wakeup_at := \<lambda>t. SpuriousWakeup\<rparr>)
            example_cond_var 1000 example_world) = False"
proof -
  note result = TimedWait_result [THEN conjunct2]
  show ?thesis by (simp add: result example_defs)
qed

text \<open>
  Claim C7. Every call to \<^verbatim>\<open>TimedWait\<close> passes the injection point
  \<^verbatim>\<open>InstrumentedCondVar::TimedWaitInternal\<close> with the caller's deadline immediately before
  the raw timed wait, and the raw timed wait receives the deadline as a registered callback
  rewrote it, or the caller's deadline when no callback is registered.
\<close>

theorem TimedWait_sync_point:
  "trace (snd (TimedWait cfg e cv t w)) =
     trace w
     @ (if NDEBUG cfg then [] else [TEST_StateDelay STATE_MUTEX_WAIT])
     @ [TEST_SYNC_POINT ''InstrumentedCondVar::TimedWaitInternal'' t,
        cond_TimedWait
          (case sync_callbacks e ''InstrumentedCondVar::TimedWaitInternal'' of
             None \<Rightarrow> t | Some cb \<Rightarrow> cb t)]"
  by (simp only: TimedWait_unfold snd_conv timer_scope_exit_simps TimedWaitInternal_trace)

theorem TimedWait_sync_point_witness:
  "trace (snd (TimedWait example_config example_env example_cond_var 1000 example_world)) =
     [TEST_StateDelay STATE_MUTEX_WAIT,
      TEST_SYNC_POINT ''InstrumentedCondVar::TimedWaitInternal'' 1000, cond_TimedWait 1500]
   \<and> trace (snd (TimedWait example_config (example_env\<lparr>sync_callbacks := \<lambda>name. None\<rparr>)
                   example_cond_var 1000 example_world)) =
     [TEST_StateDelay STATE_MUTEX_WAIT,
      TEST_SYNC_POINT ''InstrumentedCondVar::TimedWaitInternal'' 1000, cond_TimedWait 1000]"
  using TimedWait_sync_point [of example_config example_env example_cond_var 1000 example_world]
    TimedWait_sync_point [of example_config "example_env\<lparr>sync_callbacks := \<lambda>name. None\<rparr>"
      example_cond_var 1000 example_world]
  by (simp add: example_defs)

text \<open>
  Claim C9. Two calls of \<^verbatim>\<open>Lock()\<close>, of \<^verbatim>\<open>Wait()\<close> or of \<^verbatim>\<open>TimedWait()\<close> that
  differ only in the clock and the statistics sink (null or not, and the sink's level)
  perform the same primitive operations with the same arguments, in the same order and
  taking the same time, and \<^verbatim>\<open>TimedWait()\<close> returns the same boolean: the worlds they
  leave differ at most in the samples recorded.
\<close>

theorem stats_config_noninterference:
  "(Lock cfg e (m\<lparr>clock := c, stats := s\<rparr>) w)\<lparr>recorded := r\<rparr>
     = (Lock cfg e m w)\<lparr>recorded := r\<rparr>
   \<and> trace (Lock cfg e (m\<lparr>clock := c, stats := s\<rparr>) w) = trace (Lock cfg e m w)
   \<and> (Wait cfg e (cv\<lparr>cv_clock := c, cv_stats := s\<rparr>) w)\<lparr>recorded := r\<rparr>
       = (Wait cfg e cv w)\<lparr>recorded := r\<rparr>
   \<and> trace (Wait cfg e (cv\<lparr>cv_clock := c, cv_stats := s\<rparr>) w) = trace (Wait cfg e cv w)
   \<and> fst (TimedWait cfg e (cv\<lparr>cv_clock := c, cv_stats := s\<rparr>) t w)
       = fst (TimedWait cfg e cv t w)
   \<and> (snd (TimedWait cfg e (cv\<lparr>cv_clock := c, cv_stats := s\<rparr>) t w))\<lparr>recorded := r\<rparr>
       = (snd (TimedWait cfg e cv t w))\<lparr>recorded := r\<rparr>
   \<and> trace (snd (TimedWait cfg e (cv\<lparr>cv_clock := c, cv_stats := s\<rparr>) t w))
       = trace (snd (TimedWait cfg e cv t w))"
  by (simp add: Lock_def Wait_def TimedWait_unfold timer_scope_exit_forget
      timer_scope_exit_simps LockInternal_config)

theorem stats_config_noninterference_witness:
  "trace (Lock example_config example_env mutex_without_clock example_world)
     = trace (Lock example_config example_env
                (mutex_without_clock\<lparr>clock := Some SystemClock,
                   stats := Some \<lparr>stats_level = 9\<rparr>\<rparr>) example_world)
   \<and> recorded (Lock example_config example_env mutex_without_clock example_world) = []
   \<and> length (recorded (Lock example_config example_env
                (mutex_without_clock\<lparr>clock := Some SystemClock,
                   stats := Some \<lparr>stats_level = 9\<rparr>\<rparr>) example_world)) = 1
   \<and> fst (TimedWait example_config example_env example_cond_var 1000 example_world)
     = fst (TimedWait example_config example_env
              (example_cond_var\<lparr>cv_clock := None, cv_stats := None\<rparr>) 1000 example_world)"
proof -
  have "recorded (Lock example_config example_env mutex_without_clock example_world) = []"
    by (simp add: example_defs Lock_def Lock_guard_def stats_for_report_def
        PERF_CONDITIONAL_TIMER_FOR_MUTEX_GUARD_def timer_scope_exit_simps
        LockInternal_recorded)
  moreover have "length (recorded (Lock example_config example_env
      (mutex_without_clock\<lparr>clock := Some SystemClock, stats := Some \<lparr>stats_level = 9\<rparr>\<rparr>)
      example_world)) = 1"
    by (simp add: example_defs Lock_def Lock_guard_def stats_for_report_def
        PERF_CONDITIONAL_TIMER_FOR_MUTEX_GUARD_def timer_scope_exit_simps
        LockInternal_recorded get_stats_level_def)
  ultimately show ?thesis
    using stats_config_noninterference [where cfg = example_config and e = example_env
        and m = mutex_without_clock and c = "Some SystemClock"
        and s = "Some \<lparr>stats_level = 9\<rparr>" and w = example_world]
      stats_config_noninterference [where cfg = example_config and e = example_env
        and cv = example_cond_var and c = None and s = None and t = 1000
        and w = example_world]
    by simp
qed

text \<open>
  Claim C10. \<^verbatim>\<open>Wait()\<close> and \<^verbatim>\<open>TimedWait()\<close> record their wait latency, the time
  that elapses between entering the call and the return of the raw wait, into the sink
  and under the tag of the condition variable, with the key \<^verbatim>\<open>db_condition_wait_nanos\<close>;
  \<^verbatim>\<open>Lock()\<close> records its latency with the key \<^verbatim>\<open>db_mutex_lock_nanos\<close>, and the two keys
  differ. All three record under one and the same condition: the tag is
  \<^verbatim>\<open>DB_MUTEX_WAIT_MICROS\<close> and \<^verbatim>\<open>stats_for_report\<close> of the clock and the sink is not
  null, which is the clock and the sink not being null and the sink's level exceeding
  \<^verbatim>\<open>kExceptTimeForMutex\<close>. Otherwise they record nothing.
\<close>

theorem wait_metric_key:
  "recorded (Wait cfg e cv w) =
     recorded w @
     (case cv_stats cv of
        None \<Rightarrow> []
      | Some s \<Rightarrow>
          if cv_stats_code cv = DB_MUTEX_WAIT_MICROS cfg \<and> cv_clock cv \<noteq> None
             \<and> kExceptTimeForMutex cfg < get_stats_level s
          then [\<lparr>sample_sink = s, sample_metric = db_condition_wait_nanos,
                 sample_ticker = cv_stats_code cv,
                 sample_nanos = now_nanos (Wait cfg e cv w) - now_nanos w\<rparr>]
          else [])
   \<and> recorded (snd (TimedWait cfg e cv t w)) =
     recorded w @
     (case cv_stats cv of
        None \<Rightarrow> []
      | Some s \<Rightarrow>
          if cv_stats_code cv = DB_MUTEX_WAIT_MICROS cfg \<and> cv_clock cv \<noteq> None
             \<and> kExceptTimeForMutex cfg < get_stats_level s
          then [\<lparr>sample_sink = s, sample_metric = db_condition_wait_nanos,
                 sample_ticker = cv_stats_code cv,
                 sample_nanos = now_nanos (snd (TimedWait cfg e cv t w)) - now_nanos w\<rparr>]
          else [])
   \<and> now_nanos (Wait cfg e cv w) =
       now_nanos w + (if NDEBUG cfg then 0 else cost_nanos e (TEST_StateDelay STATE_MUTEX_WAIT))
       + cost_nanos e cond_Wait
   \<and> now_nanos (snd (TimedWait cfg e cv t w)) =
       now_nanos w + (if NDEBUG cfg then 0 else cost_nanos e (TEST_StateDelay STATE_MUTEX_WAIT))
       + cost_nanos e (TEST_SYNC_POINT ''InstrumentedCondVar::TimedWaitInternal'' t)
       + cost_nanos e
           (cond_TimedWait
              (case sync_callbacks e ''InstrumentedCondVar::TimedWaitInternal'' of
                 None \<Rightarrow> t | Some cb \<Rightarrow> cb t))
   \<and> map sample_metric (new_samples w (Lock cfg e m w)) =
     (if stats_code m = DB_MUTEX_WAIT_MICROS cfg
         \<and> stats_for_report cfg (clock m) (stats m) \<noteq> None
      then [db_mutex_lock_nanos] else [])
   \<and> map sample_metric (new_samples w (Wait cfg e cv w)) =
     (if cv_stats_code cv = DB_MUTEX_WAIT_MICROS cfg
         \<and> stats_for_report cfg (cv_clock cv) (cv_stats cv) \<noteq> None
      then [db_condition_wait_nanos] else [])
   \<and> map sample_metric (new_samples w (snd (TimedWait cfg e cv t w))) =
     (if cv_stats_code cv = DB_MUTEX_WAIT_MICROS cfg
         \<and> stats_for_report cfg (cv_clock cv) (cv_stats cv) \<noteq> None
      then [db_condition_wait_nanos] else [])
   \<and> db_condition_wait_nanos \<noteq> db_mutex_lock_nanos"
proof -
  have wait_time: "now_nanos (WaitInternal cfg e w) =
      now_nanos w + (if NDEBUG cfg then 0 else cost_nanos e (TEST_StateDelay STATE_MUTEX_WAIT))
      + cost_nanos e cond_Wait"
    by (simp add: WaitInternal_def state_delay_def perform_simps)
  have timed_time: "now_nanos (snd (TimedWaitInternal cfg e t w)) =
      now_nanos w + (if NDEBUG cfg then 0 else cost_nanos e (TEST_StateDelay STATE_MUTEX_WAIT))
      + cost_nanos e (TEST_SYNC_POINT ''InstrumentedCondVar::TimedWaitInternal'' t)
      + cost_nanos e
          (cond_TimedWait
             (case sync_callbacks e ''InstrumentedCondVar::TimedWaitInternal'' of
                None \<Rightarrow> t | Some cb \<Rightarrow> cb t))"
    by (simp add: TimedWaitInternal_def TEST_SYNC_POINT_CALLBACK_def port_TimedWait_def
        state_delay_def perform_simps)
  have wait_rec: "recorded (Wait cfg e cv w) =
     recorded w @
     (case cv_stats cv of
        None \<Rightarrow> []
      | Some s \<Rightarrow>
          if cv_stats_code cv = DB_MUTEX_WAIT_MICROS cfg \<and> cv_clock cv \<noteq> None
             \<and> kExceptTimeForMutex cfg < get_stats_level s
          then [\<lparr>sample_sink = s, sample_metric = db_condition_wait_nanos,
                 sample_ticker = cv_stats_code cv,
                 sample_nanos = now_nanos (Wait cfg e cv w) - now_nanos w\<rparr>]
          else [])"
    by (cases "cv_stats cv")
      (simp_all add: Wait_def Wait_guard_def guard_cases timer_scope_exit_simps
        WaitInternal_recorded)
  have timed_rec: "recorded (snd (TimedWait cfg e cv t w)) =
     recorded w @
     (case cv_stats cv of
        None \<Rightarrow> []
      | Some s \<Rightarrow>
          if cv_stats_code cv = DB_MUTEX_WAIT_MICROS cfg \<and> cv_clock cv \<noteq> None
             \<and> kExceptTimeForMutex cfg < get_stats_level s
          then [\<lparr>sample_sink = s, sample_metric = db_condition_wait_nanos,
                 sample_ticker = cv_stats_code cv,
                 sample_nanos = now_nanos (snd (TimedWait cfg e cv t w)) - now_nanos w\<rparr>]
          else [])"
    by (cases "cv_stats cv")
      (simp_all add: TimedWait_unfold Wait_guard_def guard_cases timer_scope_exit_simps
        TimedWaitInternal_recorded)
  have keys: "map sample_metric (new_samples w (Lock cfg e m w)) =
     (if stats_code m = DB_MUTEX_WAIT_MICROS cfg
         \<and> stats_for_report cfg (clock m) (stats m) \<noteq> None
      then [db_mutex_lock_nanos] else [])
   \<and> map sample_metric (new_samples w (Wait cfg e cv w)) =
     (if cv_stats_code cv = DB_MUTEX_WAIT_MICROS cfg
         \<and> stats_for_report cfg (cv_clock cv) (cv_stats cv) \<noteq> None
      then [db_condition_wait_nanos] else [])
   \<and> map sample_metric (new_samples w (snd (TimedWait cfg e cv t w))) =
     (if cv_stats_code cv = DB_MUTEX_WAIT_MICROS cfg
         \<and> stats_for_report cfg (cv_clock cv) (cv_stats cv) \<noteq> None
      then [db_condition_wait_nanos] else [])"
    by (simp add: Lock_def Wait_def TimedWait_unfold new_samples_def timer_scope_exit_simps
        LockInternal_recorded WaitInternal_recorded TimedWaitInternal_recorded
        Lock_guard_def Wait_guard_def PERF_CONDITIONAL_TIMER_FOR_MUTEX_GUARD_def
        split: option.split)
  have wait_now: "now_nanos (Wait cfg e cv w) = now_nanos (WaitInternal cfg e w)"
    by (simp add: Wait_def timer_scope_exit_simps)
  have timed_now: "now_nanos (snd (TimedWait cfg e cv t w)) =
      now_nanos (snd (TimedWaitInternal cfg e t w))"
    by (simp add: TimedWait_unfold timer_scope_exit_simps)
  have distinct_keys: "db_condition_wait_nanos \<noteq> db_mutex_lock_nanos" by simp
  show ?thesis
    using wait_rec timed_rec keys distinct_keys
    by (simp only: wait_now timed_now wait_time timed_time simp_thms)
qed

theorem wait_metric_key_witness:
  "recorded (Wait example_config example_env example_cond_var example_world) =
     [\<lparr>sample_sink = \<lparr>stats_level = 5\<rparr>, sample_metric = db_condition_wait_nanos,
       sample_ticker = 39, sample_nanos = 910\<rparr>]
   \<and> recorded (snd (TimedWait example_config example_env example_cond_var 1000
                      example_world)) =
     [\<lparr>sample_sink = \<lparr>stats_level = 5\<rparr>, sample_metric = db_condition_wait_nanos,
       sample_ticker = 39, sample_nanos = 420\<rparr>]
   \<and> recorded (Wait example_config example_env
                 (example_cond_var\<lparr>cv_clock := None\<rparr>) example_world) = []
   \<and> recorded (snd (TimedWait example_config example_env
                 (example_cond_var\<lparr>cv_stats_code := 40\<rparr>) 1000 example_world)) = []
   \<and> map sample_metric
       (new_samples example_world (Lock example_config example_env example_mutex example_world))
     = [db_mutex_lock_nanos]"
proof -
  note at_example = wait_metric_key [where cfg = example_config and e = example_env
      and cv = example_cond_var and t = 1000 and w = example_world and m = example_mutex]
  note without_clock = wait_metric_key [where cfg = example_config and e = example_env
      and cv = "example_cond_var\<lparr>cv_clock := None\<rparr>" and t = 1000 and w = example_world
      and m = example_mutex, THEN conjunct1]
  note other_tag = wait_metric_key [where cfg = example_config and e = example_env
      and cv = "example_cond_var\<lparr>cv_stats_code := 40\<rparr>" and t = 1000
      and w = example_world and m = example_mutex, THEN conjunct2, THEN conjunct1]
  have times:
    "now_nanos (Wait example_config example_env example_cond_var example_world) = 1910"
    "now_nanos (snd (TimedWait example_config example_env example_cond_var 1000
                       example_world)) = 1420"
    using at_example by (simp_all add: example_defs)
  have "recorded (Wait example_config example_env example_cond_var example_world) =
     [\<lparr>sample_sink = \<lparr>stats_level = 5\<rparr>, sample_metric = db_condition_wait_nanos,
       sample_ticker = 39, sample_nanos = 910\<rparr>]"
    using at_example [THEN conjunct1] times(1)
    by (simp add: example_defs get_stats_level_def)
  moreover have "recorded (snd (TimedWait example_config example_env example_cond_var 1000
                      example_world)) =
     [\<lparr>sample_sink = \<lparr>stats_level = 5\<rparr>, sample_metric = db_condition_wait_nanos,
       sample_ticker = 39, sample_nanos = 420\<rparr>]"
    using at_example [THEN conjunct2, THEN conjunct1] times(2)
    by (simp add: example_defs get_stats_level_def)
  moreover have "recorded (Wait example_config example_env
                 (example_cond_var\<lparr>cv_clock := None\<rparr>) example_world) = []"
    using without_clock by (simp add: example_defs)
  moreover have "recorded (snd (TimedWait example_config example_env
                 (example_cond_var\<lparr>cv_stats_code := 40\<rparr>) 1000 example_world)) = []"
    using other_tag by (simp add: example_defs)
  moreover have "map sample_metric
       (new_samples example_world (Lock example_config example_env example_mutex example_world))
     = [db_mutex_lock_nanos]"
    using at_example by (simp add: example_defs stats_for_report_def get_stats_level_def)
  ultimately show ?thesis by simp
qed

end
